theory Spec2Isabelle
  imports Complex_Main
begin

section \<open>Values and strings of the host language\<close>

text \<open>
  The application is a React front end in TypeScript: the component \<^verbatim>\<open>App\<close> with its event
  handlers, the two service functions it imports from \<^verbatim>\<open>./services/geminiService\<close>, and the
  types of \<^verbatim>\<open>types.ts\<close>. The source holds two versions of \<^verbatim>\<open>App\<close> whose shared handlers are
  the same text; the model follows the later one, which adds the prompt editor. A handler
  is modelled as run to its end, each \<^verbatim>\<open>await\<close> answered before the next statement, with no
  other handler running in between.

  Everything the handlers parse comes out of \<^verbatim>\<open>JSON.parse\<close>, so the values they handle are
  JSON values. The type cast \<^verbatim>\<open>parsedJson as CharacterPrompt\<close> checks nothing at run time; a
  prompt is therefore modelled as the JSON value it is, not as a record of its declared type.

  A string is a list of code units; the model covers code units below 256. A number is the
  value \<^verbatim>\<open>JSON.parse\<close> makes of a number literal: a finite double, held as the rational it
  denotes (the two zeros are one value: both are falsy and both print \<^verbatim>\<open>0\<close>), or an
  infinity, which a literal too large for a double parses to. An object is the list of its
  own properties, read with \<open>map_of\<close>.
\<close>

datatype number = Finite rat | PosInfinity | NegInfinity

datatype json =
    JNull
  | JBool bool
  | JNum number
  | JStr string
  | JArr "json list"
  | JObj "(string \<times> json) list"

text \<open>
  \<^verbatim>\<open>value[key]\<close> for a property name that is neither an array index nor a built-in
  property (the handlers only read \<^verbatim>\<open>scene\<close>, \<^verbatim>\<open>prompt\<close>, \<^verbatim>\<open>description\<close>, \<^verbatim>\<open>text\<close>,
  \<^verbatim>\<open>character_id\<close>, \<^verbatim>\<open>appearance\<close>, \<^verbatim>\<open>inlineData\<close>, \<^verbatim>\<open>data\<close>). \<open>None\<close> is \<^verbatim>\<open>undefined\<close>: what a
  missing property reads as, on an object and on a string, a number, a boolean or an array
  alike. Reading a property of \<^verbatim>\<open>null\<close> throws; that case is written out where it can
  happen.
\<close>

fun getProp :: "json \<Rightarrow> string \<Rightarrow> json option" where
  "getProp (JObj props) key = map_of props key"
| "getProp _ key = None"

text \<open>JavaScript's truthiness on JSON values (\<^verbatim>\<open>!value\<close> is its negation).\<close>

fun truthy :: "json \<Rightarrow> bool" where
  "truthy JNull = False"
| "truthy (JBool b) = b"
| "truthy (JNum n) = (n \<noteq> Finite 0)"
| "truthy (JStr s) = (s \<noteq> [])"
| "truthy (JArr _) = True"
| "truthy (JObj _) = True"

text \<open>
  \<^verbatim>\<open>String.prototype.trim\<close>: white space and line terminators are removed at both ends.
  Below 256 these are TAB, LF, VT, FF, CR, SPACE and NBSP.
\<close>

definition isWhiteSpace :: "char \<Rightarrow> bool" where
  "isWhiteSpace c = (of_char c \<in> {9, 10, 11, 12, 13, 32, 160 :: nat})"

definition trim :: "string \<Rightarrow> string" where
  "trim s = rev (dropWhile isWhiteSpace (rev (dropWhile isWhiteSpace s)))"

text \<open>
  Decimal rendering of an array index, an index plus one or an array length inside a
  template string: an array has fewer than \<open>2\<^sup>3\<^sup>2\<close> elements, and JavaScript prints such
  integers as plain decimals. \<open>digitChar\<close> is only applied below ten.
\<close>

definition digitChar :: "nat \<Rightarrow> char" where
  "digitChar n = ''0123456789'' ! n"

fun decimal :: "nat \<Rightarrow> string" where
  "decimal n = (if n < 10 then [digitChar n] else decimal (n div 10) @ [digitChar (n mod 10)])"

declare decimal.simps [simp del]

section \<open>Errors\<close>

text \<open>
  Every \<^verbatim>\<open>throw\<close> and every rejected promise of the source is a value of this type;
  \<open>message\<close> is the \<^verbatim>\<open>.message\<close> the handlers store or display. The text of a
  \<^verbatim>\<open>SyntaxError\<close>, of a \<^verbatim>\<open>TypeError\<close> and of a rejected API call is chosen by the engine or
  the service, so it is carried by the constructor.
\<close>

datatype js_error =
    SyntaxError string
  | TypeError string
  | RootNotArray
  | EmptyArray
  | InvalidItem nat
  | ApiError string
  | InvalidJsonFormat
  | NoImageData

fun message :: "js_error \<Rightarrow> string" where
  "message (SyntaxError m) = m"
| "message (TypeError m) = m"
| "message RootNotArray = ''The root of the JSON file must be an array `[]`.''"
| "message EmptyArray = ''The JSON array cannot be empty.''"
| \<open>message (InvalidItem index) =
     ''Item at index '' @ decimal index @
     '' is invalid. It must be a non-empty string, or an object with a "scene", "prompt", "description", or "text" property.''\<close>
| "message (ApiError m) = m"
| "message InvalidJsonFormat = ''The API returned an invalid JSON format.''"
| "message NoImageData = ''No image data found in the API response.''"

section \<open>Data model (\<^verbatim>\<open>types.ts\<close> and the component state)\<close>

datatype SceneStatus = Pending | Analyzing | Generating | Complete | Error

text \<open>
  \<^verbatim>\<open>SceneResult\<close>. The fields \<^verbatim>\<open>id\<close> and \<^verbatim>\<open>image\<close> carry a suffix because HOL has constants
  of these names. \<^verbatim>\<open>jsonPrompt: null\<close> is \<open>JNull\<close>; the nullable strings are options.
\<close>

record SceneResult =
  id_r :: nat
  scene :: string
  jsonPrompt :: json
  image_r :: "string option"
  status :: SceneStatus
  error :: "string option"

text \<open>
  \<^verbatim>\<open>Pick<CharacterPrompt, 'character_id' | 'appearance'>\<close>; a field is \<open>None\<close> when the
  property read that filled it gave \<^verbatim>\<open>undefined\<close>.
\<close>

record BaseCharacter =
  character_id :: "json option"
  appearance :: "json option"

text \<open>The \<^verbatim>\<open>useState\<close> cells of the component \<^verbatim>\<open>App\<close>.\<close>

record app_state =
  results :: "SceneResult list"
  isProcessing :: bool
  fileName :: string
  progressMessage :: string
  baseCharacterProfile :: "BaseCharacter option"
  editingScene :: "SceneResult option"
  editedJsonText :: string
  jsonEditError :: "string option"
  isRegenerating :: bool
  completedCount :: nat
  fileError :: "string option"

section \<open>Scene parser (\<^verbatim>\<open>handleFileChange\<close>)\<close>

definition potentialKeys :: "string list" where
  "potentialKeys = [''scene'', ''prompt'', ''description'', ''text'']"

text \<open>
  The loop \<^verbatim>\<open>for (const key of potentialKeys)\<close>: the first key whose value is a string
  with a non-empty trim wins and ends the loop.
\<close>

fun firstDescription :: "json \<Rightarrow> string list \<Rightarrow> string option" where
  "firstDescription item [] = None"
| "firstDescription item (key # keys) =
     (case getProp item key of
        Some (JStr v) \<Rightarrow> if trim v \<noteq> [] then Some (trim v) else firstDescription item keys
      | _ \<Rightarrow> firstDescription item keys)"

text \<open>
  The body of the \<^verbatim>\<open>map\<close> callback up to the check of \<^verbatim>\<open>sceneDescription\<close>. An array
  has \<^verbatim>\<open>typeof item === 'object'\<close> too and takes the second branch.
\<close>

fun sceneDescriptionOf :: "json \<Rightarrow> string option" where
  "sceneDescriptionOf (JStr item) = (if trim item \<noteq> [] then Some (trim item) else None)"
| "sceneDescriptionOf (JObj props) = firstDescription (JObj props) potentialKeys"
| "sceneDescriptionOf (JArr items) = firstDescription (JArr items) potentialKeys"
| "sceneDescriptionOf _ = None"

definition newSceneResult :: "nat \<Rightarrow> string \<Rightarrow> SceneResult" where
  "newSceneResult index sceneDescription =
     \<lparr>id_r = index, scene = sceneDescription, jsonPrompt = JNull, image_r = None,
      status = Pending, error = None\<rparr>"

text \<open>
  \<^verbatim>\<open>parsedJson.map((item, index) => ...)\<close>: the callback throws at the first entry without
  a description, and then no array is produced.
\<close>

fun mapItems :: "nat \<Rightarrow> json list \<Rightarrow> js_error + SceneResult list" where
  "mapItems index [] = Inr []"
| "mapItems index (item # items) =
     (case sceneDescriptionOf item of
        None \<Rightarrow> Inl (InvalidItem index)
      | Some sceneDescription \<Rightarrow>
          (case mapItems (Suc index) items of
             Inl e \<Rightarrow> Inl e
           | Inr rest \<Rightarrow> Inr (newSceneResult index sceneDescription # rest)))"

text \<open>The \<^verbatim>\<open>try\<close> block after \<^verbatim>\<open>JSON.parse\<close>.\<close>

fun parseScenes :: "json \<Rightarrow> js_error + SceneResult list" where
  "parseScenes (JArr items) = (if items = [] then Inl EmptyArray else mapItems 0 items)"
| "parseScenes _ = Inl RootNotArray"

definition handleReset :: "app_state \<Rightarrow> app_state" where
  "handleReset s =
     s\<lparr>results := [], fileName := [], isProcessing := False, progressMessage := [],
       baseCharacterProfile := None, editingScene := None, completedCount := 0,
       fileError := None\<rparr>"

section \<open>The host and the two remote models\<close>

text \<open>
  What the repository calls but does not define. \<open>JSON_parse\<close> is \<^verbatim>\<open>JSON.parse\<close>: \<open>Inl m\<close>
  when it throws a \<^verbatim>\<open>SyntaxError\<close> with message \<open>m\<close>; \<open>JSON_stringify\<close> is
  \<^verbatim>\<open>JSON.stringify(v, null, 2)\<close>; \<open>Number_toString\<close> is the engine's rendering of a number
  in a template string; \<open>nullReadText\<close> gives the message of the \<^verbatim>\<open>TypeError\<close> the engine
  throws when the named property is read from \<^verbatim>\<open>null\<close>.

  \<open>textModel\<close> and \<open>imageModel\<close> are the two \<^verbatim>\<open>ai.models.generateContent\<close> calls. The
  request of the text call is a function of the scene description and of the base character
  (which selects and fills the system instruction), the request of the image call a function
  of the prompt, so these are the arguments. The first argument numbers the call, so that
  two calls with equal requests may answer differently. \<open>Inl e\<close>: the awaited call rejects
  with \<open>e\<close> or, for the image call, the response has no \<^verbatim>\<open>candidates[0].content.parts\<close> to
  iterate over and reaching them throws \<open>e\<close>. The text call answers with \<^verbatim>\<open>response.text\<close>
  (an absent text reaches \<^verbatim>\<open>JSON.parse\<close> as the string \<^verbatim>\<open>undefined\<close>), the image call with the
  values the loop \<^verbatim>\<open>for (const part of ...parts)\<close> visits, each the JSON value it is.
\<close>

record host =
  JSON_parse :: "string \<Rightarrow> string + json"
  JSON_stringify :: "json \<Rightarrow> string"
  Number_toString :: "number \<Rightarrow> string"
  nullReadText :: "string \<Rightarrow> string"
  textModel :: "nat \<Rightarrow> string \<Rightarrow> BaseCharacter option \<Rightarrow> js_error + string"
  imageModel :: "nat \<Rightarrow> json \<Rightarrow> js_error + json list"

text \<open>
  \<^verbatim>\<open>handleFileChange\<close> with the file reader's callback run to its end. The file is its
  name and its text; \<open>None\<close> when no file was chosen.
\<close>

definition handleFileChange ::
  "host \<Rightarrow> (string \<times> string) option \<Rightarrow> app_state \<Rightarrow> app_state" where
  "handleFileChange h file s =
     (case file of
        None \<Rightarrow> s
      | Some (name, content) \<Rightarrow>
          (let s1 = (handleReset s)\<lparr>fileName := name\<rparr>;
               outcome = (case JSON_parse h content of
                            Inl m \<Rightarrow> Inl (SyntaxError m)
                          | Inr parsedJson \<Rightarrow> parseScenes parsedJson)
           in case outcome of
                Inr sceneResults \<Rightarrow> s1\<lparr>results := sceneResults, fileError := None\<rparr>
              | Inl e \<Rightarrow>
                  s1\<lparr>results := [],
                     fileError := Some (''Error in '' @ name @ '': '' @ message e)\<rparr>))"

section \<open>The service wrappers (\<^verbatim>\<open>geminiService.ts\<close>)\<close>

definition generateCharacterJson ::
  "host \<Rightarrow> nat \<Rightarrow> string \<Rightarrow> BaseCharacter option \<Rightarrow> js_error + json" where
  "generateCharacterJson h n sceneDescription baseChar =
     (case textModel h n sceneDescription baseChar of
        Inl e \<Rightarrow> Inl e
      | Inr jsonText \<Rightarrow>
          (case JSON_parse h jsonText of
             Inl _ \<Rightarrow> Inl InvalidJsonFormat
           | Inr parsedJson \<Rightarrow> Inr parsedJson))"

text \<open>
  The loop over the parts. \<^verbatim>\<open>part.inlineData\<close> is tested for truthiness and
  \<^verbatim>\<open>part.inlineData.data\<close> is returned, whatever it is: \<open>None\<close> is \<^verbatim>\<open>undefined\<close>, returned when
  the inline data has no \<^verbatim>\<open>data\<close>. A part that is \<^verbatim>\<open>null\<close> makes the test throw.
\<close>

fun firstInlineData :: "host \<Rightarrow> json list \<Rightarrow> js_error + json option" where
  "firstInlineData h [] = Inl NoImageData"
| "firstInlineData h (part # parts) =
     (if part = JNull then Inl (TypeError (nullReadText h ''inlineData''))
      else
        (case getProp part ''inlineData'' of
           Some inlineData \<Rightarrow>
             if truthy inlineData then Inr (getProp inlineData ''data'')
             else firstInlineData h parts
         | None \<Rightarrow> firstInlineData h parts))"

definition generateImageFromPrompt :: "host \<Rightarrow> nat \<Rightarrow> json \<Rightarrow> js_error + json option" where
  "generateImageFromPrompt h n prompt =
     (case imageModel h n prompt of
        Inl e \<Rightarrow> Inl e
      | Inr parts \<Rightarrow> firstInlineData h parts)"

section \<open>Template strings and rendering\<close>

text \<open>
  The coercion of a value inside a template string; \<open>None\<close> is \<^verbatim>\<open>undefined\<close>. An array
  joins its elements with commas, \<^verbatim>\<open>null\<close> elements as empty strings.
\<close>

fun joinComma :: "string list \<Rightarrow> string" where
  "joinComma [] = []"
| "joinComma [x] = x"
| "joinComma (x # y # zs) = x @ '','' @ joinComma (y # zs)"

fun toString :: "host \<Rightarrow> json \<Rightarrow> string" where
  "toString h JNull = ''null''"
| "toString h (JBool b) = (if b then ''true'' else ''false'')"
| "toString h (JNum n) = Number_toString h n"
| "toString h (JStr s) = s"
| "toString h (JArr items) = joinComma (map (\<lambda>x. if x = JNull then [] else toString h x) items)"
| "toString h (JObj props) = ''[object Object]''"

definition templateValue :: "host \<Rightarrow> json option \<Rightarrow> string" where
  "templateValue h v = (case v of None \<Rightarrow> ''undefined'' | Some j \<Rightarrow> toString h j)"

text \<open>\<^verbatim>\<open>`data:image/png;base64,${imageData}`\<close>\<close>

definition dataUrl :: "host \<Rightarrow> json option \<Rightarrow> string" where
  "dataUrl h imageData = ''data:image/png;base64,'' @ templateValue h imageData"

text \<open>
  What the component's \<^verbatim>\<open>return (...)\<close> does with the state. The only expressions of the
  JSX that can throw are in the character profile, shown when \<^verbatim>\<open>baseCharacterProfile\<close> is
  set: \<^verbatim>\<open>{baseCharacterProfile.character_id}\<close> and, for every entry of
  \<^verbatim>\<open>Object.entries(baseCharacterProfile.appearance)\<close>, \<^verbatim>\<open>{value}\<close>. As a child React accepts
  \<^verbatim>\<open>undefined\<close>, \<^verbatim>\<open>null\<close>, booleans, numbers, strings and arrays of such, and throws on an
  object. \<^verbatim>\<open>Object.entries\<close> throws on \<^verbatim>\<open>undefined\<close> and \<^verbatim>\<open>null\<close>; a string gives its
  characters, a number or boolean nothing, an array its elements, an object its own
  properties. Everything else the JSX shows is a string or a number of the state.

  When the render throws, React unmounts \<^verbatim>\<open>App\<close>: no component state is left.
\<close>

fun rendersChild :: "json \<Rightarrow> bool" where
  "rendersChild (JObj props) = False"
| "rendersChild (JArr items) = list_all rendersChild items"
| "rendersChild _ = True"

fun entriesRender :: "json \<Rightarrow> bool" where
  "entriesRender JNull = False"
| "entriesRender (JObj props) =
     list_all (\<lambda>key. case map_of props key of Some v \<Rightarrow> rendersChild v | None \<Rightarrow> True)
       (map fst props)"
| "entriesRender (JArr items) = list_all rendersChild items"
| "entriesRender _ = True"

definition rendersProfile :: "BaseCharacter \<Rightarrow> bool" where
  "rendersProfile b =
     ((case character_id b of None \<Rightarrow> True | Some v \<Rightarrow> rendersChild v)
      \<and> (case appearance b of None \<Rightarrow> False | Some a \<Rightarrow> entriesRender a))"


section \<open>The batch run (\<^verbatim>\<open>handleGenerateAll\<close>)\<close>

text \<open>Every call made to a remote model is logged, in order, with its arguments.\<close>

datatype api_call =
    PromptCall nat string "BaseCharacter option"
  | ImageCall nat json


text \<open>\<^verbatim>\<open>setResults(prev => prev.map(r => r.id === i ? f(r) : r))\<close>\<close>

definition updateScene :: "nat \<Rightarrow> (SceneResult \<Rightarrow> SceneResult) \<Rightarrow> app_state \<Rightarrow> app_state" where
  "updateScene i f s = s\<lparr>results := map (\<lambda>r. if id_r r = i then f r else r) (results s)\<rparr>"







section \<open>Download, editing and the single re-run\<close>


definition handleOpenEditModal :: "host \<Rightarrow> SceneResult \<Rightarrow> app_state \<Rightarrow> app_state" where
  "handleOpenEditModal h result s =
     (if \<not> truthy (jsonPrompt result) then s
      else s\<lparr>editingScene := Some result,
             editedJsonText := JSON_stringify h (jsonPrompt result),
             jsonEditError := None\<rparr>)"

text \<open>The text area's \<^verbatim>\<open>onChange\<close>.\<close>

definition setEditedJsonText :: "string \<Rightarrow> app_state \<Rightarrow> app_state" where
  "setEditedJsonText t s = s\<lparr>editedJsonText := t\<rparr>"

text \<open>
  \<^verbatim>\<open>handleCloseEditModal\<close> reads \<^verbatim>\<open>isRegenerating\<close> from the render it was created in; the
  first argument is that captured value.
\<close>

definition handleCloseEditModal :: "bool \<Rightarrow> app_state \<Rightarrow> app_state" where
  "handleCloseEditModal capturedIsRegenerating s =
     (if capturedIsRegenerating then s
      else s\<lparr>editingScene := None, editedJsonText := [], jsonEditError := None\<rparr>)"

definition handleRegenerate :: "host \<Rightarrow> app_state \<Rightarrow> app_state \<times> api_call list" where
  "handleRegenerate h s =
     (case editingScene s of
        None \<Rightarrow> (s, [])
      | Some edited \<Rightarrow>
          (case JSON_parse h (editedJsonText s) of
             Inl _ \<Rightarrow>
               (s\<lparr>jsonEditError := Some ''Invalid JSON format. Please check for syntax errors.''\<rparr>, [])
           | Inr parsedJson \<Rightarrow>
               (let s1 = s\<lparr>jsonEditError := None, isRegenerating := True\<rparr>;
                    s2 = updateScene (id_r edited)
                           (\<lambda>r. r\<lparr>status := Generating, jsonPrompt := parsedJson\<rparr>) s1;
                    s3 = handleCloseEditModal (isRegenerating s) s2;
                    s4 = (case generateImageFromPrompt h (id_r edited) parsedJson of
                            Inr imageData \<Rightarrow>
                              updateScene (id_r edited)
                                (\<lambda>r. r\<lparr>status := Complete,
                                       image_r := Some (dataUrl h imageData),
                                       error := None\<rparr>) s3
                          | Inl err \<Rightarrow>
                              updateScene (id_r edited)
                                (\<lambda>r. r\<lparr>status := Error, error := Some (message err)\<rparr>) s3)
                in (s4\<lparr>isRegenerating := False\<rparr>, [ImageCall (id_r edited) parsedJson]))))"

section \<open>Notions of the specification\<close>

text \<open>
  The specification's words for the parser, written independently of the loops above:
  a key \<^emph>\<open>holds text\<close> when its value is a string whose trimmed text is not empty; an
  entry is \<^emph>\<open>valid\<close> when it is such a string itself or an object where some recognized
  key holds text; its text is the trimmed string, taken for an object from the first key in
  priority order that holds text.
\<close>

definition holdsText :: "(string \<times> json) list \<Rightarrow> string \<Rightarrow> bool" where
  "holdsText props key = (case map_of props key of Some (JStr v) \<Rightarrow> trim v \<noteq> [] | _ \<Rightarrow> False)"

definition textAt :: "(string \<times> json) list \<Rightarrow> string \<Rightarrow> string" where
  "textAt props key = (case map_of props key of Some (JStr v) \<Rightarrow> trim v | _ \<Rightarrow> [])"

definition validEntry :: "json \<Rightarrow> bool" where
  "validEntry entry =
     (case entry of
        JStr s \<Rightarrow> trim s \<noteq> []
      | JObj props \<Rightarrow> (\<exists>key \<in> set potentialKeys. holdsText props key)
      | _ \<Rightarrow> False)"

definition entryText :: "json \<Rightarrow> string" where
  "entryText entry =
     (case entry of
        JStr s \<Rightarrow> trim s
      | JObj props \<Rightarrow>
          (case find (holdsText props) potentialKeys of
             Some key \<Rightarrow> textAt props key
           | None \<Rightarrow> [])
      | _ \<Rightarrow> [])"

text \<open>
  The inputs the parser must reject: not a list, an empty list, or a list with an entry
  that is not valid.
\<close>

definition rejectedInput :: "json \<Rightarrow> bool" where
  "rejectedInput parsedJson =
     (case parsedJson of
        JArr items \<Rightarrow> items = [] \<or> (\<exists>entry \<in> set items. \<not> validEntry entry)
      | _ \<Rightarrow> True)"


text \<open>The \<^verbatim>\<open>character_id\<close> and \<^verbatim>\<open>appearance\<close> a prompt carries.\<close>

definition identityOf :: "json \<Rightarrow> BaseCharacter" where
  "identityOf p =
     \<lparr>character_id = getProp p ''character_id'', appearance = getProp p ''appearance''\<rparr>"



text \<open>The Prompt Synthesis calls of a log, in order: item, scene text, identity passed.\<close>

fun promptCalls :: "api_call list \<Rightarrow> (nat \<times> string \<times> BaseCharacter option) list" where
  "promptCalls [] = []"
| "promptCalls (PromptCall i d b # cs) = (i, d, b) # promptCalls cs"
| "promptCalls (ImageCall i p # cs) = promptCalls cs"




text \<open>
  A part of an image response carries inline data when its \<^verbatim>\<open>inlineData\<close> is truthy; the
  loop of the image wrapper ends at the first part that is \<^verbatim>\<open>null\<close> or carries inline data.
\<close>

definition hasInlineData :: "json \<Rightarrow> bool" where
  "hasInlineData part = (case getProp part ''inlineData'' of Some v \<Rightarrow> truthy v | None \<Rightarrow> False)"

definition inlineDataOf :: "json \<Rightarrow> json option" where
  "inlineDataOf part = (case getProp part ''inlineData'' of Some v \<Rightarrow> getProp v ''data'' | None \<Rightarrow> None)"

text \<open>
  The shape the specification requires of a StructuredPrompt: \<^verbatim>\<open>character_id\<close>, the five
  fields of \<^verbatim>\<open>appearance\<close>, the two of \<^verbatim>\<open>scene\<close>, and \<^verbatim>\<open>style\<close>, all strings.
\<close>

definition stringAt :: "json \<Rightarrow> string \<Rightarrow> bool" where
  "stringAt j key = (case getProp j key of Some (JStr v) \<Rightarrow> True | _ \<Rightarrow> False)"

definition hasPromptShape :: "json \<Rightarrow> bool" where
  "hasPromptShape p =
     (stringAt p ''character_id''
      \<and> (case getProp p ''appearance'' of
            Some a \<Rightarrow> stringAt a ''gender'' \<and> stringAt a ''hair'' \<and> stringAt a ''eyes''
                       \<and> stringAt a ''clothing'' \<and> stringAt a ''age''
          | None \<Rightarrow> False)
      \<and> (case getProp p ''scene'' of
            Some sc \<Rightarrow> stringAt sc ''context'' \<and> stringAt sc ''action''
          | None \<Rightarrow> False)
      \<and> stringAt p ''style'')"


section \<open>Sample inputs\<close>

text \<open>
  \<open>sampleParse\<close> stands for \<^verbatim>\<open>JSON.parse\<close> in the examples: it agrees with it on the texts
  listed and is used on no other text.
\<close>

definition initialState :: app_state where
  "initialState =
     \<lparr>results = [], isProcessing = False, fileName = [], progressMessage = [],
      baseCharacterProfile = None, editingScene = None, editedJsonText = [],
      jsonEditError = None, isRegenerating = False, completedCount = 0, fileError = None\<rparr>"

definition sampleFileText :: string where
  \<open>sampleFileText = ''["a hero walks on the beach", {"scene": "  ", "prompt": " a hero sits by a fire "}]''\<close>

definition sampleFileJson :: json where
  "sampleFileJson =
     JArr [JStr ''a hero walks on the beach'',
           JObj [(''scene'', JStr ''  ''), (''prompt'', JStr '' a hero sits by a fire '')]]"

definition badFileText :: string where
  \<open>badFileText = ''[{"foo": "bar"}]''\<close>

definition badFileJson :: json where
  "badFileJson = JArr [JObj [(''foo'', JStr ''bar'')]]"

definition heroAppearance :: json where
  "heroAppearance =
     JObj [(''gender'', JStr ''male''), (''hair'', JStr ''short black hair''),
           (''eyes'', JStr ''brown''), (''clothing'', JStr ''red cloak''),
           (''age'', JStr ''young adult'')]"

definition samplePrompt :: "string \<Rightarrow> string \<Rightarrow> string \<Rightarrow> json" where
  "samplePrompt cid context action =
     JObj [(''character_id'', JStr cid), (''appearance'', heroAppearance),
           (''scene'', JObj [(''context'', JStr context), (''action'', JStr action)]),
           (''style'', JStr ''cinematic'')]"

definition heroBeach :: json where
  "heroBeach = samplePrompt ''hero_01'' ''beach'' ''walking''"

definition heroFire :: json where
  "heroFire = samplePrompt ''hero_01'' ''campfire'' ''sitting''"

definition villainFire :: json where
  "villainFire = samplePrompt ''villain_02'' ''campfire'' ''sitting''"

definition knightBeach :: json where
  "knightBeach = samplePrompt ''knight_07'' ''beach'' ''walking''"

definition heroBeachText :: string where
  \<open>heroBeachText = ''{"character_id":"hero_01","appearance":{"gender":"male","hair":"short black hair","eyes":"brown","clothing":"red cloak","age":"young adult"},"scene":{"context":"beach","action":"walking"},"style":"cinematic"}''\<close>

definition heroFireText :: string where
  \<open>heroFireText = ''{"character_id":"hero_01","appearance":{"gender":"male","hair":"short black hair","eyes":"brown","clothing":"red cloak","age":"young adult"},"scene":{"context":"campfire","action":"sitting"},"style":"cinematic"}''\<close>

definition villainFireText :: string where
  \<open>villainFireText = ''{"character_id":"villain_02","appearance":{"gender":"male","hair":"short black hair","eyes":"brown","clothing":"red cloak","age":"young adult"},"scene":{"context":"campfire","action":"sitting"},"style":"cinematic"}''\<close>

definition knightBeachText :: string where
  \<open>knightBeachText = ''{"character_id":"knight_07","appearance":{"gender":"male","hair":"short black hair","eyes":"brown","clothing":"red cloak","age":"young adult"},"scene":{"context":"beach","action":"walking"},"style":"cinematic"}''\<close>

definition sampleParse :: "string \<Rightarrow> string + json" where
  \<open>sampleParse t =
     (if t = sampleFileText then Inr sampleFileJson
      else if t = badFileText then Inr badFileJson
      else if t = ''{}'' then Inr (JObj [])
      else if t = heroBeachText then Inr heroBeach
      else if t = heroFireText then Inr heroFire
      else if t = villainFireText then Inr villainFire
      else if t = knightBeachText then Inr knightBeach
      else Inl ''Unexpected token'')\<close>

text \<open>
  \<open>sampleStringify\<close> stands for \<^verbatim>\<open>JSON.stringify(v, null, 2)\<close> in the same way, on the one
  prompt an example opens in the editor, and \<open>sampleNumberText\<close> for the rendering of
  numbers, of which the examples have none but zero and one. \<open>sampleNullReadText\<close> is the
  message of one engine.
\<close>

definition heroFirePretty :: string where
  \<open>heroFirePretty =
     ''{\<newline>  "character_id": "hero_01",\<newline>  "appearance": {\<newline>    "gender": "male",\<newline>    "hair": "short black hair",\<newline>    "eyes": "brown",\<newline>    "clothing": "red cloak",\<newline>    "age": "young adult"\<newline>  },\<newline>  "scene": {\<newline>    "context": "campfire",\<newline>    "action": "sitting"\<newline>  },\<newline>  "style": "cinematic"\<newline>}''\<close>

definition sampleStringify :: "json \<Rightarrow> string" where
  "sampleStringify j = (if j = heroFire then heroFirePretty else [])"

definition sampleNumberText :: "number \<Rightarrow> string" where
  "sampleNumberText n = (if n = Finite 1 then ''1'' else ''0'')"

definition sampleNullReadText :: "string \<Rightarrow> string" where
  "sampleNullReadText name = ''Cannot read properties of null (reading '' @ name @ '')''"

text \<open>
  A text model that invents \<^verbatim>\<open>hero_01\<close> for item 0 and echoes it afterwards, and an image
  model whose response has a text part and then an image part.
\<close>

definition sampleParts :: "json list" where
  "sampleParts =
     [JObj [(''text'', JStr ''Here is the image.'')],
      JObj [(''inlineData'',
             JObj [(''mimeType'', JStr ''image/png''), (''data'', JStr ''iVBORw0KGgo='')])]]"

definition sampleHost :: host where
  "sampleHost =
     \<lparr>JSON_parse = sampleParse,
      JSON_stringify = sampleStringify,
      Number_toString = sampleNumberText,
      nullReadText = sampleNullReadText,
      textModel = (\<lambda>n d b. if n = 0 then Inr heroBeachText else Inr heroFireText),
      imageModel = (\<lambda>n p. Inr sampleParts)\<rparr>"


text \<open>
  More hosts. Three differ in the text model: one invents \<^verbatim>\<open>knight_07\<close> for item 0 and
  fails afterwards; one invents \<^verbatim>\<open>hero_01\<close> for item 0 and answers every later call with
  \<^verbatim>\<open>knight_07\<close>, whatever identity it is given; one answers with an empty object. Two differ
  in the image model: the response of one has a text part only; in the response of the
  other the inline data of the first part has a type and no data.
\<close>

definition rerunHost :: host where
  "rerunHost =
     sampleHost\<lparr>textModel :=
       (\<lambda>n d b. if n = 0 then Inr knightBeachText else Inl (ApiError ''quota exceeded''))\<rparr>"


definition emptyObjectHost :: host where
  "emptyObjectHost = sampleHost\<lparr>textModel := (\<lambda>n d b. Inr ''{}'')\<rparr>"

definition textOnlyHost :: host where
  "textOnlyHost =
     sampleHost\<lparr>imageModel := (\<lambda>n p. Inr [JObj [(''text'', JStr ''I cannot draw this.'')]])\<rparr>"

definition noDataHost :: host where
  "noDataHost =
     sampleHost\<lparr>imageModel :=
       (\<lambda>n p. Inr (JObj [(''inlineData'', JObj [(''mimeType'', JStr ''image/png'')])]
                    # sampleParts))\<rparr>"

text \<open>
  The sample session: the batch is generated, which leaves \<open>generatedState\<close>; the editor is
  opened on the second scene and its text replaced by a prompt with another
  \<^verbatim>\<open>character_id\<close>; the scene is regenerated. \<open>brokenEditState\<close> is the editor holding a text
  that is not JSON.
\<close>

definition generatedState :: app_state where
  "generatedState =
     \<lparr>results =
        [\<lparr>id_r = 0, scene = ''a hero walks on the beach'', jsonPrompt = heroBeach,
          image_r = Some ''data:image/png;base64,iVBORw0KGgo='', status = Complete, error = None\<rparr>,
         \<lparr>id_r = 1, scene = ''a hero sits by a fire'', jsonPrompt = heroFire,
          image_r = Some ''data:image/png;base64,iVBORw0KGgo='', status = Complete, error = None\<rparr>],
      isProcessing = False, fileName = ''scenes.json'',
      progressMessage = ''Batch processing complete. 2 scenes processed.'',
      baseCharacterProfile = Some (identityOf heroBeach),
      editingScene = None, editedJsonText = [], jsonEditError = None, isRegenerating = False,
      completedCount = 2, fileError = None\<rparr>"

definition editedState :: app_state where
  "editedState =
     setEditedJsonText villainFireText
       (handleOpenEditModal sampleHost (results generatedState ! 1) generatedState)"


definition brokenEditState :: app_state where
  "brokenEditState =
     setEditedJsonText ''{not json''
       (handleOpenEditModal sampleHost (results generatedState ! 1) generatedState)"

section \<open>The parser accepts valid batches and rejects the others\<close>

lemma firstDescription_find:
  "firstDescription (JObj props) keys = map_option (textAt props) (find (holdsText props) keys)"
  by (induction keys) (auto simp: holdsText_def textAt_def split: option.splits json.splits)

lemma firstDescription_array: "firstDescription (JArr items) keys = None"
  by (induction keys) auto

lemma find_None_iff_set: "(find P xs = None) = (\<forall>x \<in> set xs. \<not> P x)"
  by (induction xs) auto

lemma sceneDescriptionOf_valid:
  "validEntry entry \<Longrightarrow> sceneDescriptionOf entry = Some (entryText entry)"
  by (cases entry)
     (auto simp: validEntry_def entryText_def firstDescription_find find_None_iff_set
           split: option.splits)

lemma sceneDescriptionOf_invalid:
  "\<not> validEntry entry \<Longrightarrow> sceneDescriptionOf entry = None"
  by (cases entry)
     (auto simp: validEntry_def firstDescription_find firstDescription_array find_None_iff_set)

lemma mapItems_valid:
  "\<forall>entry \<in> set items. validEntry entry \<Longrightarrow>
   mapItems index items =
     Inr (map (\<lambda>(i, entry). newSceneResult i (entryText entry))
            (zip [index ..< index + length items] items))"
proof (induction items arbitrary: index)
  case Nil
  then show ?case by simp
next
  case (Cons item items)
  have "[index ..< index + length (item # items)] = index # [Suc index ..< Suc index + length items]"
    by (simp add: upt_rec)
  with Cons show ?case
    by (simp add: sceneDescriptionOf_valid)
qed

lemma mapItems_invalid:
  "\<exists>entry \<in> set items. \<not> validEntry entry \<Longrightarrow>
   \<exists>i < length items. mapItems index items = Inl (InvalidItem (index + i))
       \<and> \<not> validEntry (items ! i) \<and> (\<forall>j < i. validEntry (items ! j))"
proof (induction items arbitrary: index)
  case Nil
  then show ?case by simp
next
  case (Cons item items)
  show ?case
  proof (cases "validEntry item")
    case False
    then have "mapItems index (item # items) = Inl (InvalidItem (index + 0))"
      by (simp add: sceneDescriptionOf_invalid)
    with False show ?thesis by (intro exI [of _ 0]) simp
  next
    case True
    with Cons.prems have "\<exists>entry \<in> set items. \<not> validEntry entry" by auto
    from Cons.IH [OF this, of "Suc index"] obtain i where i: "i < length items"
      "mapItems (Suc index) items = Inl (InvalidItem (Suc index + i))"
      "\<not> validEntry (items ! i)" "\<forall>j < i. validEntry (items ! j)" by blast
    have "\<forall>j < Suc i. validEntry ((item # items) ! j)"
      using True i(4) by (auto simp: nth_Cons split: nat.splits)
    with i True show ?thesis
      by (intro exI [of _ "Suc i"]) (simp add: sceneDescriptionOf_valid)
  qed
qed

lemma trim_samples:
  "trim ''a hero walks on the beach'' = ''a hero walks on the beach''"
  "trim '' a hero sits by a fire '' = ''a hero sits by a fire''"
  "trim ''  '' = []"
  "trim ''x'' = ''x''"
  "trim ''bar'' = ''bar''"
  by (simp_all add: trim_def isWhiteSpace_def)

text \<open>
  Claim C3. For every input that is a non-empty list of valid entries, parsing succeeds
  and yields one scene per entry, in input order: the scene at position \<open>i\<close> has id \<open>i\<close>,
  status \<open>Pending\<close>, no prompt, image or error, and as its text the trimmed string of entry
  \<open>i\<close> (for an object, of the first recognized key in priority order that holds text).
\<close>

theorem parse_accepts_valid_batches:
  assumes "items \<noteq> []" and "\<forall>entry \<in> set items. validEntry entry"
  shows "\<exists>sceneResults. parseScenes (JArr items) = Inr sceneResults
           \<and> length sceneResults = length items
           \<and> (\<forall>i < length items.
                 sceneResults ! i =
                   \<lparr>id_r = i, scene = entryText (items ! i), jsonPrompt = JNull,
                    image_r = None, status = Pending, error = None\<rparr>)"
proof -
  let ?rs = "map (\<lambda>(i, entry). newSceneResult i (entryText entry)) (zip [0 ..< 0 + length items] items)"
  have "parseScenes (JArr items) = Inr ?rs"
    using assms mapItems_valid [of items 0] by simp
  moreover have "length ?rs = length items" by simp
  moreover have "\<forall>i < length items. ?rs ! i = newSceneResult i (entryText (items ! i))"
    by simp
  ultimately show ?thesis
    unfolding newSceneResult_def by blast
qed

theorem parse_accepts_valid_batches_witness:
  "[JStr ''a hero walks on the beach'',
    JObj [(''scene'', JStr ''  ''), (''prompt'', JStr '' a hero sits by a fire '')]] \<noteq> []
   \<and> validEntry (JStr ''a hero walks on the beach'')
   \<and> validEntry (JObj [(''scene'', JStr ''  ''), (''prompt'', JStr '' a hero sits by a fire '')])
   \<and> (\<exists>sceneResults. parseScenes sampleFileJson = Inr sceneResults
         \<and> length sceneResults = 2
         \<and> sceneResults ! 0 =
             \<lparr>id_r = 0, scene = ''a hero walks on the beach'', jsonPrompt = JNull,
              image_r = None, status = Pending, error = None\<rparr>
         \<and> sceneResults ! 1 =
             \<lparr>id_r = 1, scene = ''a hero sits by a fire'', jsonPrompt = JNull,
              image_r = None, status = Pending, error = None\<rparr>)"
proof -
  let ?items = "[JStr ''a hero walks on the beach'',
    JObj [(''scene'', JStr ''  ''), (''prompt'', JStr '' a hero sits by a fire '')]]"
  have ne: "?items \<noteq> []" by simp
  have valid: "\<forall>entry \<in> set ?items. validEntry entry"
    by (simp add: validEntry_def potentialKeys_def holdsText_def trim_samples)
  have text0: "entryText (?items ! 0) = ''a hero walks on the beach''"
    by (simp add: entryText_def trim_samples)
  have text1: "entryText (?items ! 1) = ''a hero sits by a fire''"
    by (simp add: entryText_def potentialKeys_def holdsText_def textAt_def trim_samples)
  from parse_accepts_valid_batches [OF ne valid]
  obtain sceneResults where r: "parseScenes (JArr ?items) = Inr sceneResults"
    "length sceneResults = length ?items"
    "\<forall>i < length ?items. sceneResults ! i =
        \<lparr>id_r = i, scene = entryText (?items ! i), jsonPrompt = JNull,
         image_r = None, status = Pending, error = None\<rparr>"
    by blast
  from r(3) have "sceneResults ! 0 =
      \<lparr>id_r = 0, scene = entryText (?items ! 0), jsonPrompt = JNull,
       image_r = None, status = Pending, error = None\<rparr>"
    and "sceneResults ! 1 =
      \<lparr>id_r = 1, scene = entryText (?items ! 1), jsonPrompt = JNull,
       image_r = None, status = Pending, error = None\<rparr>"
    by simp_all
  moreover from valid have "validEntry (JStr ''a hero walks on the beach'')"
    and "validEntry (JObj [(''scene'', JStr ''  ''), (''prompt'', JStr '' a hero sits by a fire '')])"
    by simp_all
  ultimately show ?thesis
    using r(1,2) text0 text1 ne unfolding sampleFileJson_def by auto
qed

text \<open>
  Claim C4. For every input that is not a list, is an empty list, or contains an entry
  that is not valid, parsing fails: the handler leaves no scene at all, and shows the
  message of the error after the file's name. The error is that of the root, of the empty
  array or, for a bad entry, the one that carries the index of the first entry that is not
  valid.
\<close>

theorem parse_rejects_invalid_batches:
  assumes "JSON_parse h content = Inr parsedJson" and "rejectedInput parsedJson"
  shows "\<exists>e. parseScenes parsedJson = Inl e
           \<and> results (handleFileChange h (Some (name, content)) s) = []
           \<and> fileError (handleFileChange h (Some (name, content)) s)
               = Some (''Error in '' @ name @ '': '' @ message e)
           \<and> (case parsedJson of
                 JArr items \<Rightarrow>
                   if items = [] then e = EmptyArray
                   else (\<exists>i < length items. e = InvalidItem i \<and> \<not> validEntry (items ! i)
                           \<and> (\<forall>j < i. validEntry (items ! j)))
               | _ \<Rightarrow> e = RootNotArray)"
proof -
  have shape: "\<exists>e. parseScenes parsedJson = Inl e
      \<and> (case parsedJson of
            JArr items \<Rightarrow>
              if items = [] then e = EmptyArray
              else (\<exists>i < length items. e = InvalidItem i \<and> \<not> validEntry (items ! i)
                      \<and> (\<forall>j < i. validEntry (items ! j)))
          | _ \<Rightarrow> e = RootNotArray)"
  proof (cases parsedJson)
    case (JArr items)
    show ?thesis
    proof (cases "items = []")
      case True
      with JArr show ?thesis by simp
    next
      case False
      with JArr assms(2) have "\<exists>entry \<in> set items. \<not> validEntry entry"
        by (simp add: rejectedInput_def)
      from mapItems_invalid [OF this, of 0] JArr False show ?thesis by auto
    qed
  qed simp_all
  then obtain e where e: "parseScenes parsedJson = Inl e" and
    rest: "case parsedJson of
            JArr items \<Rightarrow>
              if items = [] then e = EmptyArray
              else (\<exists>i < length items. e = InvalidItem i \<and> \<not> validEntry (items ! i)
                      \<and> (\<forall>j < i. validEntry (items ! j)))
          | _ \<Rightarrow> e = RootNotArray"
    by blast
  have "results (handleFileChange h (Some (name, content)) s) = []"
    and "fileError (handleFileChange h (Some (name, content)) s)
           = Some (''Error in '' @ name @ '': '' @ message e)"
    using assms(1) e by (simp_all add: handleFileChange_def Let_def)
  with e rest show ?thesis by blast
qed

theorem parse_rejects_invalid_batches_witness:
  "JSON_parse sampleHost badFileText = Inr badFileJson \<and> rejectedInput badFileJson
   \<and> parseScenes badFileJson = Inl (InvalidItem 0)
   \<and> results (handleFileChange sampleHost (Some (''scenes.json'', badFileText)) initialState) = []
   \<and> fileError (handleFileChange sampleHost (Some (''scenes.json'', badFileText)) initialState)
       = Some (''Error in scenes.json: '' @ message (InvalidItem 0))"
proof -
  have parsed: "JSON_parse sampleHost badFileText = Inr badFileJson"
    by (simp add: sampleHost_def sampleParse_def badFileText_def sampleFileText_def)
  have rejected: "rejectedInput badFileJson"
    by (simp add: rejectedInput_def badFileJson_def validEntry_def potentialKeys_def holdsText_def)
  from parse_rejects_invalid_batches [OF parsed rejected, of "''scenes.json''" initialState]
  obtain e where e: "parseScenes badFileJson = Inl e"
    "results (handleFileChange sampleHost (Some (''scenes.json'', badFileText)) initialState) = []"
    "fileError (handleFileChange sampleHost (Some (''scenes.json'', badFileText)) initialState)
       = Some (''Error in '' @ ''scenes.json'' @ '': '' @ message e)"
    "case badFileJson of
       JArr items \<Rightarrow>
         if items = [] then e = EmptyArray
         else (\<exists>i < length items. e = InvalidItem i \<and> \<not> validEntry (items ! i)
                 \<and> (\<forall>j < i. validEntry (items ! j)))
     | _ \<Rightarrow> e = RootNotArray"
    by blast
  from e(4) have "e = InvalidItem 0" by (simp add: badFileJson_def)
  with e(1,2,3) parsed rejected show ?thesis by simp
qed

text \<open>
  Claim C10. In an object entry, a recognized key whose value is absent, is not a string,
  or is a string with an empty trim is skipped and the next key is consulted; a key that
  holds text ends the search with its trimmed text. So the description is that of the first
  key in priority order that holds text, and the entry is rejected exactly when no
  recognized key holds text. The example of the claim parses to \<open>x\<close>.
\<close>

theorem object_keys_consulted_in_priority_order:
  "(map_of props key = None \<or> (\<exists>v. map_of props key = Some v \<and> (\<forall>t. v \<noteq> JStr t))
      \<or> (\<exists>t. map_of props key = Some (JStr t) \<and> trim t = [])
     \<longrightarrow> firstDescription (JObj props) (key # keys) = firstDescription (JObj props) keys)
   \<and> (\<forall>t. map_of props key = Some (JStr t) \<and> trim t \<noteq> []
         \<longrightarrow> firstDescription (JObj props) (key # keys) = Some (trim t))
   \<and> sceneDescriptionOf (JObj props)
       = map_option (textAt props) (find (holdsText props) potentialKeys)
   \<and> (sceneDescriptionOf (JObj props) = None) = (\<forall>k \<in> set potentialKeys. \<not> holdsText props k)
   \<and> sceneDescriptionOf (JObj [(''scene'', JStr ''  ''), (''prompt'', JStr ''x'')]) = Some ''x''"
proof -
  have skip: "map_of props key = None \<or> (\<exists>v. map_of props key = Some v \<and> (\<forall>t. v \<noteq> JStr t))
      \<or> (\<exists>t. map_of props key = Some (JStr t) \<and> trim t = [])
     \<longrightarrow> firstDescription (JObj props) (key # keys) = firstDescription (JObj props) keys"
    by (auto split: option.splits json.splits)
  have take: "\<forall>t. map_of props key = Some (JStr t) \<and> trim t \<noteq> []
         \<longrightarrow> firstDescription (JObj props) (key # keys) = Some (trim t)"
    by simp
  have first: "sceneDescriptionOf (JObj props)
       = map_option (textAt props) (find (holdsText props) potentialKeys)"
    by (simp add: firstDescription_find)
  have none: "(sceneDescriptionOf (JObj props) = None) = (\<forall>k \<in> set potentialKeys. \<not> holdsText props k)"
    by (simp add: firstDescription_find find_None_iff_set)
  have example: "sceneDescriptionOf (JObj [(''scene'', JStr ''  ''), (''prompt'', JStr ''x'')]) = Some ''x''"
    by (simp add: potentialKeys_def trim_samples)
  from skip take first none example show ?thesis by blast
qed

theorem object_keys_consulted_in_priority_order_witness:
  "map_of [(''scene'', JStr ''  ''), (''prompt'', JStr ''x'')] ''scene'' = Some (JStr ''  '')
   \<and> trim ''  '' = []
   \<and> firstDescription (JObj [(''scene'', JStr ''  ''), (''prompt'', JStr ''x'')]) [''scene'', ''prompt'']
       = firstDescription (JObj [(''scene'', JStr ''  ''), (''prompt'', JStr ''x'')]) [''prompt'']
   \<and> \<not> (\<forall>k \<in> set potentialKeys. \<not> holdsText [(''scene'', JStr ''  ''), (''prompt'', JStr ''x'')] k)
   \<and> sceneDescriptionOf (JObj [(''scene'', JStr ''  ''), (''prompt'', JStr ''x'')]) \<noteq> None"
proof -
  let ?props = "[(''scene'', JStr ''  ''), (''prompt'', JStr ''x'')]"
  have at: "map_of ?props ''scene'' = Some (JStr ''  '')" by simp
  have blank: "trim ''  '' = []" by (rule trim_samples)
  have holds: "\<not> (\<forall>k \<in> set potentialKeys. \<not> holdsText ?props k)"
    by (simp add: potentialKeys_def holdsText_def trim_samples)
  note inst = object_keys_consulted_in_priority_order [of ?props "''scene''" "[''prompt'']"]
  from inst at blank have
    "firstDescription (JObj ?props) [''scene'', ''prompt''] = firstDescription (JObj ?props) [''prompt'']"
    by blast
  moreover from inst holds have "sceneDescriptionOf (JObj ?props) \<noteq> None" by blast
  ultimately show ?thesis using at blank holds by blast
qed

section \<open>One iteration of the batch run\<close>






lemma promptCalls_append [simp]: "promptCalls (xs @ ys) = promptCalls xs @ promptCalls ys"
  by (induction xs rule: promptCalls.induct) auto










section \<open>The loop\<close>















section \<open>The sample session, evaluated\<close>

lemmas sample_defs = sampleHost_def sampleParse_def sampleFileText_def badFileText_def
  heroBeachText_def heroFireText_def villainFireText_def knightBeachText_def
  sampleFileJson_def sampleParts_def sampleNullReadText_def


lemmas render_defs = rendersProfile_def identityOf_def heroBeach_def knightBeach_def
  samplePrompt_def heroAppearance_def










section \<open>The batch run as a whole\<close>





















section \<open>The single re-run\<close>


lemma editedState_eval:
  "editedState = generatedState\<lparr>editingScene := Some (results generatedState ! 1),
      editedJsonText := villainFireText\<rparr>"
  "results generatedState ! 1 =
     \<lparr>id_r = 1, scene = ''a hero sits by a fire'', jsonPrompt = heroFire,
      image_r = Some ''data:image/png;base64,iVBORw0KGgo='', status = Complete, error = None\<rparr>"
  by (simp_all add: editedState_def handleOpenEditModal_def setEditedJsonText_def
        generatedState_def heroFire_def samplePrompt_def)






text \<open>
  Claim C7. When the edited text is not well-formed JSON, the re-run stops before any
  call to a model: it makes no call, only records the edit error, and leaves every scene
  (the edited one included), the identity and the open editor as they were.
\<close>

theorem malformed_edit_blocks_rerun:
  assumes "editingScene s = Some e" and "JSON_parse h (editedJsonText s) = Inl m"
  shows "snd (handleRegenerate h s) = []
       \<and> fst (handleRegenerate h s)
           = s\<lparr>jsonEditError := Some ''Invalid JSON format. Please check for syntax errors.''\<rparr>
       \<and> results (fst (handleRegenerate h s)) = results s
       \<and> baseCharacterProfile (fst (handleRegenerate h s)) = baseCharacterProfile s
       \<and> editingScene (fst (handleRegenerate h s)) = Some e"
  using assms by (simp add: handleRegenerate_def)

theorem malformed_edit_blocks_rerun_witness:
  "editingScene brokenEditState = Some (results generatedState ! 1)
   \<and> JSON_parse sampleHost (editedJsonText brokenEditState) = Inl ''Unexpected token''
   \<and> snd (handleRegenerate sampleHost brokenEditState) = []
   \<and> results (fst (handleRegenerate sampleHost brokenEditState)) = results brokenEditState
   \<and> results brokenEditState ! 1 =
       \<lparr>id_r = 1, scene = ''a hero sits by a fire'', jsonPrompt = heroFire,
        image_r = Some ''data:image/png;base64,iVBORw0KGgo='', status = Complete, error = None\<rparr>"
proof -
  have broken: "brokenEditState = generatedState\<lparr>editingScene := Some (results generatedState ! 1),
      editedJsonText := ''{not json''\<rparr>"
    by (simp add: brokenEditState_def handleOpenEditModal_def setEditedJsonText_def
          generatedState_def heroFire_def samplePrompt_def)
  have hyps: "editingScene brokenEditState = Some (results generatedState ! 1)"
    "JSON_parse sampleHost (editedJsonText brokenEditState) = Inl ''Unexpected token''"
    by (simp_all add: broken sample_defs)
  from malformed_edit_blocks_rerun [OF hyps]
  have "snd (handleRegenerate sampleHost brokenEditState) = []"
    "results (fst (handleRegenerate sampleHost brokenEditState)) = results brokenEditState"
    by simp_all
  moreover have "results brokenEditState ! 1 =
       \<lparr>id_r = 1, scene = ''a hero sits by a fire'', jsonPrompt = heroFire,
        image_r = Some ''data:image/png;base64,iVBORw0KGgo='', status = Complete, error = None\<rparr>"
    by (simp add: broken editedState_eval(2) del: One_nat_def)
  ultimately show ?thesis using hyps by (simp del: One_nat_def)
qed

section \<open>The service wrappers\<close>

lemma firstInlineData_find:
  "firstInlineData h parts
     = (case find (\<lambda>q. q = JNull \<or> hasInlineData q) parts of
          None \<Rightarrow> Inl NoImageData
        | Some q \<Rightarrow>
            if q = JNull then Inl (TypeError (nullReadText h ''inlineData''))
            else Inr (inlineDataOf q))"
  by (induction parts) (auto simp: hasInlineData_def inlineDataOf_def split: option.splits)

text \<open>
  Claim C8, as amended. The Prompt Synthesizer wrapper fails when the underlying call
  fails (with that error) and when the response text is not JSON (with the wrapper's own
  error); every text that parses is returned as the value it parses to, whatever its
  shape. The Image Synthesizer wrapper fails when the call fails, when no part of the
  response is \<^verbatim>\<open>null\<close> or carries inline data, and when a \<^verbatim>\<open>null\<close> part comes before every part
  that carries inline data. Otherwise it returns the \<^verbatim>\<open>data\<close> of the inline data of the
  first part that carries some, which is \<^verbatim>\<open>undefined\<close> when that inline data has no \<^verbatim>\<open>data\<close>,
  whatever the later parts hold.
\<close>

theorem wrappers_fail_or_return:
  "(\<forall>e. textModel h n d b = Inl e \<longrightarrow> generateCharacterJson h n d b = Inl e)
   \<and> (\<forall>t m. textModel h n d b = Inr t \<and> JSON_parse h t = Inl m
         \<longrightarrow> generateCharacterJson h n d b = Inl InvalidJsonFormat)
   \<and> (\<forall>t j. textModel h n d b = Inr t \<and> JSON_parse h t = Inr j
         \<longrightarrow> generateCharacterJson h n d b = Inr j)
   \<and> (\<forall>e. imageModel h n p = Inl e \<longrightarrow> generateImageFromPrompt h n p = Inl e)
   \<and> (\<forall>parts. imageModel h n p = Inr parts \<and> (\<forall>q \<in> set parts. q \<noteq> JNull \<and> \<not> hasInlineData q)
         \<longrightarrow> generateImageFromPrompt h n p = Inl NoImageData)
   \<and> (\<forall>parts. imageModel h n p = Inr parts
         \<longrightarrow> generateImageFromPrompt h n p
               = (case find (\<lambda>q. q = JNull \<or> hasInlineData q) parts of
                    None \<Rightarrow> Inl NoImageData
                  | Some q \<Rightarrow>
                      if q = JNull then Inl (TypeError (nullReadText h ''inlineData''))
                      else Inr (inlineDataOf q)))"
proof -
  have parsing: "(\<forall>e. textModel h n d b = Inl e \<longrightarrow> generateCharacterJson h n d b = Inl e)"
    "(\<forall>t m. textModel h n d b = Inr t \<and> JSON_parse h t = Inl m
         \<longrightarrow> generateCharacterJson h n d b = Inl InvalidJsonFormat)"
    "(\<forall>t j. textModel h n d b = Inr t \<and> JSON_parse h t = Inr j
         \<longrightarrow> generateCharacterJson h n d b = Inr j)"
    by (simp_all add: generateCharacterJson_def)
  have fails: "\<forall>e. imageModel h n p = Inl e \<longrightarrow> generateImageFromPrompt h n p = Inl e"
    by (simp add: generateImageFromPrompt_def)
  have first: "\<forall>parts. imageModel h n p = Inr parts
         \<longrightarrow> generateImageFromPrompt h n p
               = (case find (\<lambda>q. q = JNull \<or> hasInlineData q) parts of
                    None \<Rightarrow> Inl NoImageData
                  | Some q \<Rightarrow>
                      if q = JNull then Inl (TypeError (nullReadText h ''inlineData''))
                      else Inr (inlineDataOf q))"
    by (simp add: generateImageFromPrompt_def firstInlineData_find)
  have none: "\<forall>parts. imageModel h n p = Inr parts
         \<and> (\<forall>q \<in> set parts. q \<noteq> JNull \<and> \<not> hasInlineData q)
         \<longrightarrow> generateImageFromPrompt h n p = Inl NoImageData"
  proof (intro allI impI)
    fix parts
    assume a: "imageModel h n p = Inr parts \<and> (\<forall>q \<in> set parts. q \<noteq> JNull \<and> \<not> hasInlineData q)"
    then have "find (\<lambda>q. q = JNull \<or> hasInlineData q) parts = None"
      by (simp add: find_None_iff_set)
    with a first show "generateImageFromPrompt h n p = Inl NoImageData" by simp
  qed
  show ?thesis by (intro conjI parsing fails none first)
qed

theorem wrappers_fail_or_return_witness:
  "textModel sampleHost 0 ''a hero walks on the beach'' None = Inr heroBeachText
   \<and> JSON_parse sampleHost heroBeachText = Inr heroBeach
   \<and> generateCharacterJson sampleHost 0 ''a hero walks on the beach'' None = Inr heroBeach
   \<and> textModel rerunHost 1 ''a hero sits by a fire'' None = Inl (ApiError ''quota exceeded'')
   \<and> generateCharacterJson rerunHost 1 ''a hero sits by a fire'' None = Inl (ApiError ''quota exceeded'')
   \<and> imageModel sampleHost 0 heroBeach = Inr sampleParts
   \<and> generateImageFromPrompt sampleHost 0 heroBeach = Inr (Some (JStr ''iVBORw0KGgo=''))
   \<and> imageModel noDataHost 0 heroBeach
       = Inr (JObj [(''inlineData'', JObj [(''mimeType'', JStr ''image/png'')])] # sampleParts)
   \<and> generateImageFromPrompt noDataHost 0 heroBeach = Inr None
   \<and> dataUrl noDataHost None = ''data:image/png;base64,undefined''
   \<and> imageModel textOnlyHost 0 heroBeach = Inr [JObj [(''text'', JStr ''I cannot draw this.'')]]
   \<and> generateImageFromPrompt textOnlyHost 0 heroBeach = Inl NoImageData"
proof -
  have answer: "textModel sampleHost 0 ''a hero walks on the beach'' None = Inr heroBeachText"
    "JSON_parse sampleHost heroBeachText = Inr heroBeach"
    by (simp_all add: sample_defs)
  have fails: "textModel rerunHost 1 ''a hero sits by a fire'' None = Inl (ApiError ''quota exceeded'')"
    by (simp add: rerunHost_def sample_defs)
  have img: "imageModel sampleHost 0 heroBeach = Inr sampleParts"
    by (simp add: sampleHost_def)
  have img': "imageModel noDataHost 0 heroBeach
       = Inr (JObj [(''inlineData'', JObj [(''mimeType'', JStr ''image/png'')])] # sampleParts)"
    by (simp add: noDataHost_def)
  from wrappers_fail_or_return [of sampleHost 0 "''a hero walks on the beach''" None heroBeach] answer
  have a: "generateCharacterJson sampleHost 0 ''a hero walks on the beach'' None = Inr heroBeach"
    by blast
  from wrappers_fail_or_return [of rerunHost 1 "''a hero sits by a fire''" None heroBeach] fails
  have b: "generateCharacterJson rerunHost 1 ''a hero sits by a fire'' None = Inl (ApiError ''quota exceeded'')"
    by blast
  from wrappers_fail_or_return [of sampleHost 0 "''a hero walks on the beach''" None heroBeach,
      THEN conjunct2, THEN conjunct2, THEN conjunct2, THEN conjunct2, THEN conjunct2,
      rule_format, OF img]
  have c: "generateImageFromPrompt sampleHost 0 heroBeach = Inr (Some (JStr ''iVBORw0KGgo=''))"
    by (simp add: sampleParts_def hasInlineData_def inlineDataOf_def)
  from wrappers_fail_or_return [of noDataHost 0 "''a hero walks on the beach''" None heroBeach,
      THEN conjunct2, THEN conjunct2, THEN conjunct2, THEN conjunct2, THEN conjunct2,
      rule_format, OF img']
  have c': "generateImageFromPrompt noDataHost 0 heroBeach = Inr None"
    by (simp add: sampleParts_def hasInlineData_def inlineDataOf_def)
  have url: "dataUrl noDataHost None = ''data:image/png;base64,undefined''"
    by (simp add: dataUrl_def templateValue_def)
  have img'': "imageModel textOnlyHost 0 heroBeach
       = Inr [JObj [(''text'', JStr ''I cannot draw this.'')]]"
    by (simp add: textOnlyHost_def)
  from wrappers_fail_or_return [of textOnlyHost 0 "''a hero walks on the beach''" None heroBeach,
      THEN conjunct2, THEN conjunct2, THEN conjunct2, THEN conjunct2, THEN conjunct1,
      rule_format, of "[JObj [(''text'', JStr ''I cannot draw this.'')]]"] img''
  have c'': "generateImageFromPrompt textOnlyHost 0 heroBeach = Inl NoImageData"
    by (simp add: hasInlineData_def)
  show ?thesis by (intro conjI answer fails img img' a b c c' url img'' c'')
qed

text \<open>
  The claim as stated says that the wrapper fails on a result without the required
  fields. An empty object has none of them and is returned.
\<close>

theorem prompt_shape_unchecked_counterexample:
  "textModel emptyObjectHost 0 ''a hero walks on the beach'' None = Inr ''{}''
   \<and> JSON_parse emptyObjectHost ''{}'' = Inr (JObj [])
   \<and> generateCharacterJson emptyObjectHost 0 ''a hero walks on the beach'' None = Inr (JObj [])
   \<and> \<not> hasPromptShape (JObj [])"
  by (simp add: generateCharacterJson_def emptyObjectHost_def sample_defs hasPromptShape_def
        stringAt_def)

lemma hasPromptShape_sample: "hasPromptShape heroBeach"
  by (simp add: hasPromptShape_def stringAt_def heroBeach_def samplePrompt_def heroAppearance_def)

section \<open>The exported file\<close>









end
